theory Spec2Isabelle
  imports Main
begin

section \<open>The Spotify proxy of server.js\<close>

text \<open>
  The proxy keeps two module-level variables, \<open>spotifyAccessToken\<close> and
  \<open>spotifyRefreshToken\<close>, and has two operations on them: \<open>refreshAccessToken\<close>
  and the request handler mounted on \<open>/api/spotify\<close>.

  The model is a run-to-completion one: an operation takes the credential state and the
  outcome of each network call it may await, and returns its result, the state it leaves
  and the calls it made, in order. The outcomes are arbitrary inputs, so a statement that
  holds for all of them holds whatever the token endpoint and the Web API answer.

  JavaScript interleaves the handlers of overlapping requests at each \<open>await\<close>. The
  functions \<open>handler\<close>, \<open>serve\<close> and \<open>run\<close> take requests one after another; the
  two variables under overlapping requests are modelled apart, by \<open>overlap_step\<close>, which
  runs one synchronous piece of server.js at a time.
\<close>

subsection \<open>JavaScript values\<close>

text \<open>
  Values of parsed JSON bodies, of query parameters and of the two token variables.
  Strings are byte strings (UTF-8). Numbers are integers only, and stand for JavaScript
  numbers below \<open>10^21\<close> in magnitude: that is enough for truthiness, and the tokens
  are opaque strings.
\<close>

datatype jsval =
    JUndefined
  | JNull
  | JBool bool
  | JNum int
  | JStr string
  | JArr "jsval list"
  | JObj "(string \<times> jsval) list"

text \<open>What \<open>if (v)\<close>, \<open>!v\<close> and \<open>v && ...\<close> test.\<close>

fun truthy :: "jsval \<Rightarrow> bool" where
  "truthy JUndefined = False"
| "truthy JNull = False"
| "truthy (JBool b) = b"
| "truthy (JNum n) = (n \<noteq> 0)"
| "truthy (JStr s) = (s \<noteq> [])"
| "truthy (JArr xs) = True"
| "truthy (JObj fs) = True"

text \<open>
  Reading one of the properties \<open>access_token\<close>, \<open>refresh_token\<close> or \<open>error\<close> of a
  value: \<open>v.k\<close> throws a TypeError on \<open>null\<close> and \<open>undefined\<close> (the result
  \<open>None\<close>), gives the field of an object, or \<open>undefined\<close> where it has none, and
  \<open>undefined\<close> on every other value, none of which has a property of these names.
\<close>

fun get_prop :: "string \<Rightarrow> jsval \<Rightarrow> jsval option" where
  "get_prop k JUndefined = None"
| "get_prop k JNull = None"
| "get_prop k (JObj fs) = Some (case map_of fs k of None \<Rightarrow> JUndefined | Some v \<Rightarrow> v)"
| "get_prop k v = Some JUndefined"

text \<open>Optional chaining \<open>v?.k\<close>: \<open>undefined\<close> instead of the TypeError.\<close>

definition opt_prop :: "string \<Rightarrow> jsval \<Rightarrow> jsval" where
  "opt_prop k v = (case get_prop k v of None \<Rightarrow> JUndefined | Some x \<Rightarrow> x)"

text \<open>
  \<open>Object.keys(v).length\<close>, for a value that is not \<open>null\<close> or \<open>undefined\<close>: the
  fields of an object, the indices of an array or of a string, nothing for a number or a
  boolean. Only whether it is zero is used.
\<close>

fun keys_count :: "jsval \<Rightarrow> nat" where
  "keys_count (JObj fs) = length fs"
| "keys_count (JArr xs) = length xs"
| "keys_count (JStr s) = length s"
| "keys_count v = 0"

text \<open>Decimal digits of a natural number.\<close>

fun show_nat :: "nat \<Rightarrow> string" where
  "show_nat n =
     (if n < 10 then [''0123456789'' ! n]
      else show_nat (n div 10) @ [''0123456789'' ! (n mod 10)])"

declare show_nat.simps [simp del]

definition join_comma :: "string list \<Rightarrow> string" where
  "join_comma xs = (case xs of [] \<Rightarrow> [] | y # ys \<Rightarrow> foldl (\<lambda>acc z. acc @ '','' @ z) y ys)"

text \<open>
  String conversion, as a template literal and \<open>URLSearchParams\<close> apply it: an array is
  its elements joined by commas, \<open>null\<close> and \<open>undefined\<close> elements being empty. A
  number is printed in decimal digits, as JavaScript prints an integer below \<open>10^21\<close>;
  from there on JavaScript prints an exponent, which is not modelled.
\<close>

fun js_to_string :: "jsval \<Rightarrow> string" where
  "js_to_string JUndefined = ''undefined''"
| "js_to_string JNull = ''null''"
| "js_to_string (JBool b) = (if b then ''true'' else ''false'')"
| "js_to_string (JNum n) = (if n < 0 then CHR ''-'' # show_nat (nat (- n)) else show_nat (nat n))"
| "js_to_string (JStr s) = s"
| "js_to_string (JArr xs) =
     join_comma (map (\<lambda>x. if x = JUndefined \<or> x = JNull then [] else js_to_string x) xs)"
| "js_to_string (JObj fs) = ''[object Object]''"

subsection \<open>Form encoding\<close>

text \<open>
  \<open>new URLSearchParams(obj).toString()\<close>: the application/x-www-form-urlencoded
  serialiser. A space becomes \<open>+\<close>; letters, digits and \<open>* - . _\<close> stay; every other
  byte becomes \<open>%HH\<close> in upper-case hexadecimal.
\<close>

definition is_digit :: "char \<Rightarrow> bool" where
  "is_digit c = (let n = (of_char c :: nat) in 48 \<le> n \<and> n \<le> 57)"

definition is_alpha :: "char \<Rightarrow> bool" where
  "is_alpha c = (let n = (of_char c :: nat) in (65 \<le> n \<and> n \<le> 90) \<or> (97 \<le> n \<and> n \<le> 122))"

definition form_safe :: "char \<Rightarrow> bool" where
  "form_safe c = (is_digit c \<or> is_alpha c \<or> c \<in> set ''*-._'')"

definition hex_digit :: "nat \<Rightarrow> char" where
  "hex_digit n = ''0123456789ABCDEF'' ! n"

definition percent_encode :: "char \<Rightarrow> string" where
  "percent_encode c =
     [CHR ''%'', hex_digit ((of_char c :: nat) div 16), hex_digit ((of_char c :: nat) mod 16)]"

definition form_encode_byte :: "char \<Rightarrow> string" where
  "form_encode_byte c =
     (if c = CHR '' '' then ''+'' else if form_safe c then [c] else percent_encode c)"

definition form_encode :: "string \<Rightarrow> string" where
  "form_encode s = concat (map form_encode_byte s)"

fun join_amp :: "string list \<Rightarrow> string" where
  "join_amp [] = []"
| "join_amp [x] = x"
| "join_amp (x # y # ys) = x @ CHR ''&'' # join_amp (y # ys)"

definition encode_pair :: "string \<times> jsval \<Rightarrow> string" where
  "encode_pair = (\<lambda>(k, v). form_encode k @ CHR ''='' # form_encode (js_to_string v))"

definition URLSearchParams_toString :: "(string \<times> jsval) list \<Rightarrow> string" where
  "URLSearchParams_toString ps = join_amp (map encode_pair ps)"

text \<open>
  The other direction, which is not in server.js: how a form-encoded query string is read
  back into names and values. The pieces between \<open>&\<close> are taken in order, empty pieces
  dropped; each is split at its first \<open>=\<close>; \<open>+\<close> is read as a space and \<open>%HH\<close> as
  the byte it names. An upstream reads the forwarded query string this way. Express
  parses the query string of the inbound URL into \<open>req.query\<close> before the handler
  runs, and \<open>express_query\<close> is what it gives for a query of flat parameters whose
  names are distinct and not integers and whose escapes are well formed; it is not
  Express's parser beyond such queries (a repeated name gives one array value there, and
  integer-like names come first).
\<close>

definition hex_value :: "char \<Rightarrow> nat option" where
  "hex_value c =
     (let n = (of_char c :: nat) in
      if 48 \<le> n \<and> n \<le> 57 then Some (n - 48)
      else if 65 \<le> n \<and> n \<le> 70 then Some (n - 55)
      else if 97 \<le> n \<and> n \<le> 102 then Some (n - 87)
      else None)"

fun form_decode :: "string \<Rightarrow> string" where
  "form_decode [] = []"
| "form_decode (c # cs) =
     (if c = CHR ''+'' then CHR '' '' # form_decode cs
      else if c = CHR ''%'' then
        (case cs of
           h # l # rest \<Rightarrow>
             (case (hex_value h, hex_value l) of
                (Some a, Some b) \<Rightarrow> char_of (16 * a + b) # form_decode rest
              | _ \<Rightarrow> c # form_decode cs)
         | _ \<Rightarrow> c # form_decode cs)
      else c # form_decode cs)"

fun split_on :: "char \<Rightarrow> string \<Rightarrow> string list" where
  "split_on c [] = [[]]"
| "split_on c (x # xs) =
     (if x = c then [] # split_on c xs
      else (case split_on c xs of [] \<Rightarrow> [[x]] | p # ps \<Rightarrow> (x # p) # ps))"

definition parse_pair :: "string \<Rightarrow> string \<times> string" where
  "parse_pair p =
     (form_decode (takeWhile (\<lambda>x. x \<noteq> CHR ''='') p),
      form_decode (drop 1 (dropWhile (\<lambda>x. x \<noteq> CHR ''='') p)))"

definition parse_query :: "string \<Rightarrow> (string \<times> string) list" where
  "parse_query s = map parse_pair (filter (\<lambda>p. p \<noteq> []) (split_on CHR ''&'' s))"

definition express_query :: "string \<Rightarrow> (string \<times> jsval) list" where
  "express_query s = map (\<lambda>(k, v). (k, JStr v)) (parse_query s)"

subsection \<open>Process state and the network\<close>

record cred_state =
  spotifyAccessToken :: jsval
  spotifyRefreshToken :: jsval

record config =
  CLIENT_ID :: string
  CLIENT_SECRET :: string

text \<open>
  What an HTTP call made through axios comes back with: a response (status and parsed
  body), or no response at all (timeout, network error), with the error's message.
  axios resolves the promise for a status from 200 to 299 and rejects it, with
  \<open>error.response\<close> set, for every other status.
\<close>

datatype http_result = Responded nat jsval | NoResponse string

definition validateStatus :: "nat \<Rightarrow> bool" where
  "validateStatus st = (200 \<le> st \<and> st < 300)"

text \<open>
  The POST to the token endpoint. The Authorization header is \<open>Basic\<close> followed by the
  base64 encoding of \<open>tr_userpass\<close>; the encoding itself is left to the transport.
\<close>

record token_request =
  tr_url :: string
  tr_body :: string
  tr_content_type :: string
  tr_userpass :: string
  tr_timeout :: nat

record axios_config =
  ax_method :: string
  ax_url :: string
  ax_headers :: "(string \<times> string) list"
  ax_data :: "jsval option"
  ax_timeout :: nat

text \<open>
  The calls an operation makes: a completed call of \<open>refreshAccessToken\<close>, with the
  request it posted to the token endpoint (\<open>None\<close> when it posted none) and what it
  returned, and a call to the Web API.
\<close>

datatype event = RefreshCall "token_request option" bool | UpstreamCall axios_config

subsection \<open>refreshAccessToken\<close>

definition token_post :: "config \<Rightarrow> jsval \<Rightarrow> token_request" where
  "token_post cfg rt =
     \<lparr> tr_url = ''https://accounts.spotify.com/api/token'',
       tr_body = URLSearchParams_toString
                   [(''grant_type'', JStr ''refresh_token''), (''refresh_token'', rt)],
       tr_content_type = ''application/x-www-form-urlencoded'',
       tr_userpass = CLIENT_ID cfg @ '':'' @ CLIENT_SECRET cfg,
       tr_timeout = 10000 \<rparr>"

record refresh_result =
  ok :: bool
  creds :: cred_state
  calls :: "event list"

text \<open>
  The \<open>catch\<close> block: the access token is cleared; a response with status 400 and
  \<open>error\<close> equal to \<open>invalid_grant\<close> also sets the refresh token to \<open>null\<close>. An error
  without a response (timeout, network error, or an exception thrown inside the \<open>try\<close>
  block) only logs its message.
\<close>

definition refresh_catch :: "(nat \<times> jsval) option \<Rightarrow> cred_state \<Rightarrow> cred_state" where
  "refresh_catch error_response s =
     (let s1 = s\<lparr>spotifyAccessToken := JStr []\<rparr> in
      case error_response of
        Some (st, d) \<Rightarrow>
          if st = 400 \<and> opt_prop ''error'' d = JStr ''invalid_grant''
          then s1\<lparr>spotifyRefreshToken := JNull\<rparr>
          else s1
      | None \<Rightarrow> s1)"

definition refreshAccessToken :: "config \<Rightarrow> http_result \<Rightarrow> cred_state \<Rightarrow> refresh_result" where
  "refreshAccessToken cfg result s =
     (if \<not> truthy (spotifyRefreshToken s) then
        \<lparr> ok = False, creds = s, calls = [RefreshCall None False] \<rparr>
      else
        let post = token_post cfg (spotifyRefreshToken s) in
        case result of
          Responded st d \<Rightarrow>
            if validateStatus st then
              (case get_prop ''access_token'' d of
                 None \<Rightarrow>
                   \<lparr> ok = False, creds = refresh_catch None s,
                     calls = [RefreshCall (Some post) False] \<rparr>
               | Some a \<Rightarrow>
                   let s1 = s\<lparr>spotifyAccessToken := a\<rparr> in
                   (case get_prop ''refresh_token'' d of
                      None \<Rightarrow>
                        \<lparr> ok = False, creds = refresh_catch None s1,
                          calls = [RefreshCall (Some post) False] \<rparr>
                    | Some rt \<Rightarrow>
                        let s2 = (if truthy rt then s1\<lparr>spotifyRefreshToken := rt\<rparr> else s1)
                        in \<lparr> ok = True, creds = s2, calls = [RefreshCall (Some post) True] \<rparr>))
            else
              \<lparr> ok = False, creds = refresh_catch (Some (st, d)) s,
                calls = [RefreshCall (Some post) False] \<rparr>
        | NoResponse msg \<Rightarrow>
            \<lparr> ok = False, creds = refresh_catch None s,
              calls = [RefreshCall (Some post) False] \<rparr>)"

text \<open>
  Startup: the refresh token comes from the environment (the process exits when it is
  empty), the access token starts as the empty string, and one refresh is attempted before
  the server listens.
\<close>

definition initial_state :: "string \<Rightarrow> cred_state" where
  "initial_state env_refresh_token =
     \<lparr> spotifyAccessToken = JStr [], spotifyRefreshToken = JStr env_refresh_token \<rparr>"

definition startup :: "config \<Rightarrow> http_result \<Rightarrow> string \<Rightarrow> refresh_result" where
  "startup cfg result env_refresh_token =
     refreshAccessToken cfg result (initial_state env_refresh_token)"

subsection \<open>The handler of /api/spotify\<close>

text \<open>
  What the handler reads of a request: \<open>req.method\<close>, \<open>req.path\<close> (below the mount
  point), \<open>req.query\<close> (the parsed query parameters, in the object's key order),
  \<open>req.headers['content-type']\<close> and \<open>req.body\<close> (as \<open>express.json()\<close> left it).
\<close>

record request =
  req_method :: string
  path :: string
  query :: "(string \<times> jsval) list"
  content_type :: "string option"
  body :: jsval

record response =
  status :: nat
  json :: jsval

text \<open>
  The outcomes of the network calls one request can await, in the order of the source:
  the refresh before the first attempt, the first attempt, the refresh after a 401, the
  retry. An outcome is used only if its call is made.
\<close>

record network =
  entry_refresh :: http_result
  first_attempt :: http_result
  reauth_refresh :: http_result
  retry_attempt :: http_result

record handled =
  reply :: response
  after :: cred_state
  events :: "event list"

definition spotifyEndpoint :: "request \<Rightarrow> string" where
  "spotifyEndpoint req =
     (case path req of
        [] \<Rightarrow> []
      | c # cs \<Rightarrow> if c = CHR ''/'' then cs else c # cs)"

definition query_string :: "request \<Rightarrow> string" where
  "query_string req = URLSearchParams_toString (query req)"

definition spotifyUrl :: "request \<Rightarrow> string" where
  "spotifyUrl req =
     ''https://api.spotify.com/v1/'' @ spotifyEndpoint req @
     (if query_string req \<noteq> [] then CHR ''?'' # query_string req else [])"

definition bearer :: "cred_state \<Rightarrow> string \<times> string" where
  "bearer s = (''Authorization'', ''Bearer '' @ js_to_string (spotifyAccessToken s))"

text \<open>The axios call of step 3 (lines 98 to 109).\<close>

definition first_request :: "request \<Rightarrow> cred_state \<Rightarrow> axios_config" where
  "first_request req s =
     \<lparr> ax_method = req_method req,
       ax_url = spotifyUrl req,
       ax_headers = bearer s #
         (case content_type req of
            None \<Rightarrow> []
          | Some ct \<Rightarrow> if ct \<noteq> [] then [(''Content-Type'', ct)] else []),
       ax_data = (if truthy (body req) \<and> 0 < keys_count (body req)
                  then Some (body req) else None),
       ax_timeout = 15000 \<rparr>"

text \<open>The axios call of the retry (lines 129 to 135).\<close>

definition retry_request :: "request \<Rightarrow> cred_state \<Rightarrow> axios_config" where
  "retry_request req s =
     \<lparr> ax_method = req_method req,
       ax_url = spotifyUrl req,
       ax_headers = [bearer s],
       ax_data = Some (body req),
       ax_timeout = 15000 \<rparr>"

definition service_unavailable :: "string \<Rightarrow> response" where
  "service_unavailable msg =
     \<lparr> status = 503,
       json = JObj [(''error'', JStr ''Service Unavailable''), (''message'', JStr msg)] \<rparr>"

definition internal_error :: response where
  "internal_error =
     \<lparr> status = 500,
       json = JObj [(''error'', JStr ''Internal Server Error''),
                    (''message'', JStr ''Failed to communicate with Spotify.'')] \<rparr>"

definition internal_error_retry :: response where
  "internal_error_retry =
     \<lparr> status = 500, json = JObj [(''error'', JStr ''Internal Server Error during retry'')] \<rparr>"

definition relay :: "nat \<Rightarrow> jsval \<Rightarrow> response" where
  "relay st d = \<lparr> status = st, json = d \<rparr>"

text \<open>Lines 123 and 124: the expired token is cleared, then one refresh.\<close>

definition reauthenticate :: "config \<Rightarrow> network \<Rightarrow> cred_state \<Rightarrow> refresh_result" where
  "reauthenticate cfg net s =
     refreshAccessToken cfg (reauth_refresh net) (s\<lparr>spotifyAccessToken := JStr []\<rparr>)"

text \<open>Step 5 (lines 121 to 150): the first attempt was answered 401.\<close>

definition on_unauthorized :: "config \<Rightarrow> network \<Rightarrow> request \<Rightarrow> cred_state \<Rightarrow> handled" where
  "on_unauthorized cfg net req s =
     (let r = reauthenticate cfg net s in
      if ok r \<and> truthy (spotifyAccessToken (creds r)) then
        let made = calls r @ [UpstreamCall (retry_request req (creds r))] in
        case retry_attempt net of
          Responded st d \<Rightarrow>
            if validateStatus st
            then \<lparr> reply = relay st d, after = creds r, events = made \<rparr>
            else \<lparr> reply = relay st d, after = creds r, events = made \<rparr>
        | NoResponse msg \<Rightarrow>
            \<lparr> reply = internal_error_retry, after = creds r, events = made \<rparr>
      else
        \<lparr> reply = service_unavailable ''Failed to re-authenticate with Spotify.'',
          after = creds r, events = calls r \<rparr>)"

text \<open>Steps 2 to 5 (lines 92 to 160): the request is sent with the token held.\<close>

definition forward :: "config \<Rightarrow> network \<Rightarrow> request \<Rightarrow> cred_state \<Rightarrow> handled" where
  "forward cfg net req s =
     (let sent = UpstreamCall (first_request req s) in
      case first_attempt net of
        Responded st d \<Rightarrow>
          if validateStatus st then
            \<lparr> reply = relay st d, after = s, events = [sent] \<rparr>
          else if st = 401 then
            (let h = on_unauthorized cfg net req s in h\<lparr>events := sent # events h\<rparr>)
          else
            \<lparr> reply = relay st d, after = s, events = [sent] \<rparr>
      | NoResponse msg \<Rightarrow>
          \<lparr> reply = internal_error, after = s, events = [sent] \<rparr>)"

text \<open>
  Step 1 (lines 84 to 90): with no access token held, one refresh. \<open>ok\<close> tells whether
  the handler goes on to step 2.
\<close>

definition ensure_token :: "config \<Rightarrow> network \<Rightarrow> cred_state \<Rightarrow> refresh_result" where
  "ensure_token cfg net s =
     (if \<not> truthy (spotifyAccessToken s)
      then refreshAccessToken cfg (entry_refresh net) s
      else \<lparr> ok = True, creds = s, calls = [] \<rparr>)"

text \<open>The handler (lines 78 to 161).\<close>

definition handler :: "config \<Rightarrow> network \<Rightarrow> request \<Rightarrow> cred_state \<Rightarrow> handled" where
  "handler cfg net req s =
     (let e = ensure_token cfg net s in
      if \<not> ok e then
        \<lparr> reply = service_unavailable ''Failed to authenticate with Spotify.'',
          after = creds e, events = calls e \<rparr>
      else
        (let h = forward cfg net req (creds e) in h\<lparr>events := calls e @ events h\<rparr>))"

text \<open>
  Requests served one after another, each on the state the previous one left: no request
  arrives while another one awaits an answer.
\<close>

fun serve :: "config \<Rightarrow> (request \<times> network) list \<Rightarrow> cred_state \<Rightarrow> handled list" where
  "serve cfg [] s = []"
| "serve cfg ((req, net) # rest) s =
     (let h = handler cfg net req s in h # serve cfg rest (after h))"

text \<open>The state a list of requests leaves.\<close>

fun run :: "config \<Rightarrow> (request \<times> network) list \<Rightarrow> cred_state \<Rightarrow> cred_state" where
  "run cfg [] s = s"
| "run cfg ((req, net) # rest) s = run cfg rest (after (handler cfg net req s))"

text \<open>An access token is only ever held together with a refresh token.\<close>

definition token_needs_grant :: "cred_state \<Rightarrow> bool" where
  "token_needs_grant s = (truthy (spotifyAccessToken s) \<longrightarrow> truthy (spotifyRefreshToken s))"

subsection \<open>Overlapping calls of refreshAccessToken\<close>

text \<open>
  \<open>refreshAccessToken\<close> runs in two pieces. Lines 32 to 48 run at the call, up to the
  \<open>await\<close> of line 39: the test of the refresh token, and the post. Lines 50 to 73 run
  when the answer arrives, on the two variables as they are then; nothing is tested again.
\<close>

definition refresh_begin :: "config \<Rightarrow> cred_state \<Rightarrow> token_request option" where
  "refresh_begin cfg s =
     (if \<not> truthy (spotifyRefreshToken s) then None
      else Some (token_post cfg (spotifyRefreshToken s)))"

definition refresh_resume :: "http_result \<Rightarrow> cred_state \<Rightarrow> bool \<times> cred_state" where
  "refresh_resume result s =
     (case result of
        Responded st d \<Rightarrow>
          if validateStatus st then
            (case get_prop ''access_token'' d of
               None \<Rightarrow> (False, refresh_catch None s)
             | Some a \<Rightarrow>
                 let s1 = s\<lparr>spotifyAccessToken := a\<rparr> in
                 (case get_prop ''refresh_token'' d of
                    None \<Rightarrow> (False, refresh_catch None s1)
                  | Some rt \<Rightarrow>
                      (True, if truthy rt then s1\<lparr>spotifyRefreshToken := rt\<rparr> else s1)))
          else (False, refresh_catch (Some (st, d)) s)
      | NoResponse msg \<Rightarrow> (False, refresh_catch None s))"

text \<open>
  The synchronous pieces of server.js that read or write the two variables, each run
  without interruption: a request arrives (lines 84 to 86: with no access token held,
  \<open>refreshAccessToken\<close> is called, and otherwise nothing is written); a first attempt
  is answered 401 (lines 123 and 124: the access token is cleared and
  \<open>refreshAccessToken\<close> is called); the token endpoint answers the call that is at
  position \<open>i\<close> among those awaiting an answer (lines 50 to 73). \<open>made\<close> lists the
  calls of \<open>refreshAccessToken\<close> that have returned.
\<close>

datatype step = Arrive | Unauthorized | Answer nat http_result

record world =
  vars :: cred_state
  awaiting :: "token_request list"
  made :: "event list"

definition call_refresh :: "config \<Rightarrow> world \<Rightarrow> world" where
  "call_refresh cfg w =
     (case refresh_begin cfg (vars w) of
        None \<Rightarrow> w\<lparr>made := made w @ [RefreshCall None False]\<rparr>
      | Some post \<Rightarrow> w\<lparr>awaiting := awaiting w @ [post]\<rparr>)"

fun overlap_step :: "config \<Rightarrow> step \<Rightarrow> world \<Rightarrow> world" where
  "overlap_step cfg Arrive w =
     (if \<not> truthy (spotifyAccessToken (vars w)) then call_refresh cfg w else w)"
| "overlap_step cfg Unauthorized w =
     call_refresh cfg (w\<lparr>vars := (vars w)\<lparr>spotifyAccessToken := JStr []\<rparr>\<rparr>)"
| "overlap_step cfg (Answer i result) w =
     (if i < length (awaiting w) then
        \<lparr> vars = snd (refresh_resume result (vars w)),
          awaiting = take i (awaiting w) @ drop (Suc i) (awaiting w),
          made = made w @ [RefreshCall (Some (awaiting w ! i)) (fst (refresh_resume result (vars w)))] \<rparr>
      else w)"

fun overlapped :: "config \<Rightarrow> step list \<Rightarrow> world \<Rightarrow> world" where
  "overlapped cfg [] w = w"
| "overlapped cfg (st # sts) w = overlapped cfg sts (overlap_step cfg st w)"

definition quiet :: "cred_state \<Rightarrow> world" where
  "quiet s = \<lparr> vars = s, awaiting = [], made = [] \<rparr>"


text \<open>No refresh token, no call awaiting an answer, and no call that posted.\<close>

definition settled :: "world \<Rightarrow> bool" where
  "settled w = (spotifyRefreshToken (vars w) = JNull \<and> awaiting w = [] \<and>
                 (\<forall>e \<in> set (made w). e = RefreshCall None False))"


subsection \<open>Reading a list of calls\<close>

fun token_posts :: "event list \<Rightarrow> token_request list" where
  "token_posts [] = []"
| "token_posts (RefreshCall (Some p) b # es) = p # token_posts es"
| "token_posts (e # es) = token_posts es"

fun refresh_returns :: "event list \<Rightarrow> bool list" where
  "refresh_returns [] = []"
| "refresh_returns (RefreshCall p b # es) = b # refresh_returns es"
| "refresh_returns (e # es) = refresh_returns es"

fun upstream_calls :: "event list \<Rightarrow> axios_config list" where
  "upstream_calls [] = []"
| "upstream_calls (UpstreamCall c # es) = c # upstream_calls es"
| "upstream_calls (e # es) = upstream_calls es"

text \<open>The failure that line 65 tests for.\<close>

fun is_invalid_grant :: "http_result \<Rightarrow> bool" where
  "is_invalid_grant (Responded st d) = (st = 400 \<and> opt_prop ''error'' d = JStr ''invalid_grant'')"
| "is_invalid_grant (NoResponse msg) = False"

subsection \<open>Example inputs\<close>

definition example_config :: config where
  "example_config = \<lparr> CLIENT_ID = ''client'', CLIENT_SECRET = ''secret'' \<rparr>"

definition get_me :: request where
  "get_me = \<lparr> req_method = ''GET'', path = ''/me'', query = [], content_type = None, body = JObj [] \<rparr>"

definition put_play :: request where
  "put_play =
     \<lparr> req_method = ''PUT'', path = ''/me/player/play'', query = [(''device_id'', JStr ''d1'')],
       content_type = Some ''application/json; charset=utf-8'',
       body = JObj [(''uris'', JArr [JStr ''spotify:track:1''])] \<rparr>"

definition token_expired :: cred_state where
  "token_expired = \<lparr> spotifyAccessToken = JStr ''old'', spotifyRefreshToken = JStr ''r0'' \<rparr>"

definition token_missing :: cred_state where
  "token_missing = \<lparr> spotifyAccessToken = JStr [], spotifyRefreshToken = JStr ''r0'' \<rparr>"

definition grant_revoked :: cred_state where
  "grant_revoked = \<lparr> spotifyAccessToken = JStr [], spotifyRefreshToken = JNull \<rparr>"

definition new_token :: http_result where
  "new_token = Responded 200 (JObj [(''access_token'', JStr ''new''), (''expires_in'', JNum 3600)])"

definition rotated_token :: http_result where
  "rotated_token =
     Responded 200 (JObj [(''access_token'', JStr ''new''), (''refresh_token'', JStr ''r1'')])"

definition invalid_grant :: http_result where
  "invalid_grant = Responded 400 (JObj [(''error'', JStr ''invalid_grant'')])"

definition unauthorized :: http_result where
  "unauthorized = Responded 401 (JObj [(''error'', JObj [(''status'', JNum 401)])])"

definition rate_limited :: http_result where
  "rate_limited =
     Responded 429 (JObj [(''error'', JObj [(''status'', JNum 429), (''message'', JStr ''rate limited'')])])"

definition timed_out :: http_result where
  "timed_out = NoResponse ''timeout of 10000ms exceeded''"


definition generous :: network where
  "generous = \<lparr> entry_refresh = rotated_token, first_attempt = unauthorized,
                 reauth_refresh = rotated_token, retry_attempt = rate_limited \<rparr>"

definition expired :: "http_result \<Rightarrow> http_result \<Rightarrow> network" where
  "expired refreshed retried =
     \<lparr> entry_refresh = timed_out, first_attempt = unauthorized,
       reauth_refresh = refreshed, retry_attempt = retried \<rparr>"

section \<open>Properties\<close>

lemmas example_defs = example_config_def get_me_def put_play_def token_expired_def token_missing_def
  grant_revoked_def new_token_def rotated_token_def invalid_grant_def unauthorized_def
  rate_limited_def timed_out_def generous_def expired_def

lemmas model_defs = handler_def ensure_token_def forward_def on_unauthorized_def reauthenticate_def
  refreshAccessToken_def refresh_catch_def validateStatus_def opt_prop_def token_post_def
  first_request_def retry_request_def bearer_def spotifyUrl_def spotifyEndpoint_def query_string_def
  URLSearchParams_toString_def encode_pair_def form_encode_def form_encode_byte_def form_safe_def
  is_digit_def is_alpha_def percent_encode_def hex_digit_def service_unavailable_def
  internal_error_def internal_error_retry_def relay_def initial_state_def startup_def
  join_comma_def

lemmas overlap_defs = quiet_def call_refresh_def refresh_begin_def refresh_resume_def

subsection \<open>Calls in a list\<close>

lemma token_posts_append: "token_posts (xs @ ys) = token_posts xs @ token_posts ys"
  by (induction xs rule: token_posts.induct) auto

lemma refresh_returns_append: "refresh_returns (xs @ ys) = refresh_returns xs @ refresh_returns ys"
  by (induction xs rule: refresh_returns.induct) auto

lemma upstream_calls_append: "upstream_calls (xs @ ys) = upstream_calls xs @ upstream_calls ys"
  by (induction xs rule: upstream_calls.induct) auto

subsection \<open>Facts about refreshAccessToken\<close>

lemma refresh_without_token:
  "\<not> truthy (spotifyRefreshToken s) \<Longrightarrow>
   refreshAccessToken cfg result s = \<lparr> ok = False, creds = s, calls = [RefreshCall None False] \<rparr>"
  by (simp add: refreshAccessToken_def)

lemma refresh_calls_one:
  "\<exists>p. calls (refreshAccessToken cfg result s) = [RefreshCall p (ok (refreshAccessToken cfg result s))]"
  by (auto simp: refreshAccessToken_def Let_def split: http_result.splits option.splits)

lemma refresh_calls_posted:
  "truthy (spotifyRefreshToken s) \<Longrightarrow>
   calls (refreshAccessToken cfg result s) =
     [RefreshCall (Some (token_post cfg (spotifyRefreshToken s))) (ok (refreshAccessToken cfg result s))]"
  by (auto simp: refreshAccessToken_def Let_def split: http_result.splits option.splits)

lemma refresh_invalid_grant:
  "truthy (spotifyRefreshToken s) \<Longrightarrow> is_invalid_grant result \<Longrightarrow>
   refreshAccessToken cfg result s =
     \<lparr> ok = False, creds = \<lparr> spotifyAccessToken = JStr [], spotifyRefreshToken = JNull \<rparr>,
       calls = [RefreshCall (Some (token_post cfg (spotifyRefreshToken s))) False] \<rparr>"
  by (cases result) (auto simp: refreshAccessToken_def refresh_catch_def validateStatus_def Let_def)

lemma refresh_failure_clears:
  "truthy (spotifyRefreshToken s) \<Longrightarrow> \<not> ok (refreshAccessToken cfg result s) \<Longrightarrow>
   spotifyAccessToken (creds (refreshAccessToken cfg result s)) = JStr []"
  by (auto simp: refreshAccessToken_def refresh_catch_def Let_def
      split: http_result.splits option.splits if_splits)

lemma refresh_failure_keeps_refresh_token:
  "\<not> ok (refreshAccessToken cfg result s) \<Longrightarrow> \<not> is_invalid_grant result \<Longrightarrow>
   spotifyRefreshToken (creds (refreshAccessToken cfg result s)) = spotifyRefreshToken s"
  by (cases result)
    (auto simp: refreshAccessToken_def refresh_catch_def Let_def split: option.splits if_splits)

lemma refresh_success:
  "ok (refreshAccessToken cfg (Responded st d) s) \<Longrightarrow>
     validateStatus st \<and> truthy (spotifyRefreshToken s) \<and> d \<noteq> JNull \<and> d \<noteq> JUndefined \<and>
     spotifyAccessToken (creds (refreshAccessToken cfg (Responded st d) s)) =
       opt_prop ''access_token'' d \<and>
     spotifyRefreshToken (creds (refreshAccessToken cfg (Responded st d) s)) =
       (if truthy (opt_prop ''refresh_token'' d) then opt_prop ''refresh_token'' d
        else spotifyRefreshToken s)"
  by (cases d)
    (auto simp: refreshAccessToken_def Let_def opt_prop_def split: option.splits if_splits)

lemma refresh_2xx:
  "truthy (spotifyRefreshToken s) \<Longrightarrow> validateStatus st \<Longrightarrow> d \<noteq> JNull \<Longrightarrow> d \<noteq> JUndefined \<Longrightarrow>
   ok (refreshAccessToken cfg (Responded st d) s)"
  by (cases d)
    (auto simp: refreshAccessToken_def Let_def opt_prop_def split: option.splits if_splits)

lemma refresh_no_response: "\<not> ok (refreshAccessToken cfg (NoResponse msg) s)"
  by (auto simp: refreshAccessToken_def Let_def)

subsection \<open>Facts about the handler\<close>

lemma validateStatus_401: "\<not> validateStatus 401"
  by (simp add: validateStatus_def)

lemma ensure_token_held:
  "truthy (spotifyAccessToken s) \<Longrightarrow> ensure_token cfg net s = \<lparr> ok = True, creds = s, calls = [] \<rparr>"
  by (simp add: ensure_token_def)

lemma ensure_token_missing:
  "\<not> truthy (spotifyAccessToken s) \<Longrightarrow>
   ensure_token cfg net s = refreshAccessToken cfg (entry_refresh net) s"
  by (simp add: ensure_token_def)

lemma ensure_token_upstream: "upstream_calls (calls (ensure_token cfg net s)) = []"
  using refresh_calls_one [of cfg "entry_refresh net" s]
  by (auto simp: ensure_token_def)

lemma reauthenticate_calls:
  "refresh_returns (calls (reauthenticate cfg net s)) = [ok (reauthenticate cfg net s)]"
  using refresh_calls_one [of cfg "reauth_refresh net" "s\<lparr>spotifyAccessToken := JStr []\<rparr>"]
  by (auto simp: reauthenticate_def)

lemma reauthenticate_upstream: "upstream_calls (calls (reauthenticate cfg net s)) = []"
  using refresh_calls_one [of cfg "reauth_refresh net" "s\<lparr>spotifyAccessToken := JStr []\<rparr>"]
  by (auto simp: reauthenticate_def)

lemma handler_stopped:
  "\<not> ok (ensure_token cfg net s) \<Longrightarrow>
   handler cfg net req s =
     \<lparr> reply = service_unavailable ''Failed to authenticate with Spotify.'',
       after = creds (ensure_token cfg net s), events = calls (ensure_token cfg net s) \<rparr>"
  by (simp add: handler_def Let_def)

lemma handler_forwarded:
  "ok (ensure_token cfg net s) \<Longrightarrow>
   handler cfg net req s =
     (forward cfg net req (creds (ensure_token cfg net s)))
       \<lparr>events := calls (ensure_token cfg net s) @
                  events (forward cfg net req (creds (ensure_token cfg net s)))\<rparr>"
  by (simp add: handler_def Let_def)

lemma forward_other_status:
  "first_attempt net = Responded st d \<Longrightarrow> st \<noteq> 401 \<Longrightarrow>
   forward cfg net req s =
     \<lparr> reply = relay st d, after = s, events = [UpstreamCall (first_request req s)] \<rparr>"
  by (simp add: forward_def Let_def)

lemma forward_no_response:
  "first_attempt net = NoResponse msg \<Longrightarrow>
   forward cfg net req s =
     \<lparr> reply = internal_error, after = s, events = [UpstreamCall (first_request req s)] \<rparr>"
  by (simp add: forward_def Let_def)

lemma forward_401:
  "first_attempt net = Responded 401 d \<Longrightarrow>
   forward cfg net req s =
     (on_unauthorized cfg net req s)
       \<lparr>events := UpstreamCall (first_request req s) # events (on_unauthorized cfg net req s)\<rparr>"
  by (simp add: forward_def Let_def validateStatus_401)

lemma on_unauthorized_retry:
  "ok (reauthenticate cfg net s) \<Longrightarrow>
   truthy (spotifyAccessToken (creds (reauthenticate cfg net s))) \<Longrightarrow>
   on_unauthorized cfg net req s =
     (let r = reauthenticate cfg net s in
      \<lparr> reply = (case retry_attempt net of
                   Responded st d \<Rightarrow> relay st d
                 | NoResponse msg \<Rightarrow> internal_error_retry),
        after = creds r,
        events = calls r @ [UpstreamCall (retry_request req (creds r))] \<rparr>)"
  by (simp add: on_unauthorized_def Let_def split: http_result.splits)

lemma on_unauthorized_no_retry:
  "\<not> (ok (reauthenticate cfg net s) \<and>
      truthy (spotifyAccessToken (creds (reauthenticate cfg net s)))) \<Longrightarrow>
   on_unauthorized cfg net req s =
     (let r = reauthenticate cfg net s in
      \<lparr> reply = service_unavailable ''Failed to re-authenticate with Spotify.'',
        after = creds r, events = calls r \<rparr>)"
  by (auto simp: on_unauthorized_def Let_def)

lemma handler_on_401:
  assumes "ok (ensure_token cfg net s)" and "first_attempt net = Responded 401 d"
  shows "handler cfg net req s =
     (let e = ensure_token cfg net s; r = reauthenticate cfg net (creds e);
          retried = (ok r \<and> truthy (spotifyAccessToken (creds r))) in
      \<lparr> reply = (if retried
                 then (case retry_attempt net of
                         Responded st2 d2 \<Rightarrow> relay st2 d2
                       | NoResponse msg \<Rightarrow> internal_error_retry)
                 else service_unavailable ''Failed to re-authenticate with Spotify.''),
        after = creds r,
        events = calls e @ UpstreamCall (first_request req (creds e)) # calls r @
                 (if retried then [UpstreamCall (retry_request req (creds r))] else []) \<rparr>)"
proof (cases "ok (reauthenticate cfg net (creds (ensure_token cfg net s))) \<and>
    truthy (spotifyAccessToken (creds (reauthenticate cfg net (creds (ensure_token cfg net s)))))")
  case True
  with assms show ?thesis
    by (simp add: handler_forwarded forward_401 on_unauthorized_retry Let_def)
next
  case False
  with assms show ?thesis
    by (auto simp: handler_forwarded forward_401 on_unauthorized_no_retry Let_def)
qed

lemma handler_upstream_calls:
  "c \<in> set (upstream_calls (events (handler cfg net req s))) \<Longrightarrow>
   ax_url c = spotifyUrl req \<and> ax_method c = req_method req"
proof -
  have r: "upstream_calls (calls (refreshAccessToken cfg result s')) = []" for result s'
    using refresh_calls_one [of cfg result s'] by auto
  assume "c \<in> set (upstream_calls (events (handler cfg net req s)))"
  then show ?thesis
    by (auto simp: handler_def ensure_token_def forward_def on_unauthorized_def reauthenticate_def
        Let_def upstream_calls_append r first_request_def retry_request_def
        split: if_splits http_result.splits)
qed

subsection \<open>Without a refresh token\<close>

lemma handler_without_refresh_token:
  assumes "\<not> truthy (spotifyRefreshToken s)"
  shows "spotifyRefreshToken (after (handler cfg net req s)) = spotifyRefreshToken s \<and>
         token_posts (events (handler cfg net req s)) = [] \<and>
         True \<notin> set (refresh_returns (events (handler cfg net req s)))"
proof (cases "truthy (spotifyAccessToken s)")
  case False
  with assms show ?thesis
    by (simp add: handler_def ensure_token_def refresh_without_token)
next
  case True
  have r: "reauthenticate cfg net s =
      \<lparr> ok = False, creds = s\<lparr>spotifyAccessToken := JStr []\<rparr>, calls = [RefreshCall None False] \<rparr>"
    using assms by (simp add: reauthenticate_def refresh_without_token)
  show ?thesis
  proof (cases "first_attempt net")
    case (NoResponse msg)
    with True show ?thesis
      by (simp add: handler_forwarded ensure_token_held forward_no_response)
  next
    case (Responded st d)
    show ?thesis
    proof (cases "st = 401")
      case False
      with True Responded show ?thesis
        by (simp add: handler_forwarded ensure_token_held forward_other_status)
    next
      case st: True
      with True Responded r show ?thesis
        by (simp add: handler_forwarded ensure_token_held forward_401 on_unauthorized_no_retry)
    qed
  qed
qed

lemma serve_without_refresh_token:
  "spotifyRefreshToken s = JNull \<Longrightarrow> h \<in> set (serve cfg reqs s) \<Longrightarrow>
   spotifyRefreshToken (after h) = JNull \<and> token_posts (events h) = [] \<and>
   True \<notin> set (refresh_returns (events h))"
proof (induction reqs arbitrary: s)
  case Nil
  then show ?case by simp
next
  case (Cons x reqs)
  obtain req net where x: "x = (req, net)" by (cases x)
  have n: "\<not> truthy (spotifyRefreshToken s)" using Cons.prems(1) by simp
  note k = handler_without_refresh_token [OF n, of cfg net req]
  from Cons.prems(2) x consider "h = handler cfg net req s"
    | "h \<in> set (serve cfg reqs (after (handler cfg net req s)))"
    by (auto simp: Let_def)
  then show ?case
  proof cases
    case 1
    with k Cons.prems(1) show ?thesis by simp
  next
    case 2
    from k Cons.prems(1) have "spotifyRefreshToken (after (handler cfg net req s)) = JNull" by simp
    from Cons.IH [OF this 2] show ?thesis .
  qed
qed

subsection \<open>No access token without a refresh token\<close>

lemma refresh_needs_grant:
  "token_needs_grant s \<Longrightarrow> token_needs_grant (creds (refreshAccessToken cfg result s))"
  by (auto simp: token_needs_grant_def refreshAccessToken_def refresh_catch_def Let_def
      split: http_result.splits option.splits if_splits)

lemma cleared_needs_grant: "token_needs_grant (s\<lparr>spotifyAccessToken := JStr []\<rparr>)"
  by (simp add: token_needs_grant_def)

lemma handler_needs_grant:
  assumes "token_needs_grant s"
  shows "token_needs_grant (after (handler cfg net req s))"
proof -
  have e: "token_needs_grant (creds (ensure_token cfg net s))"
    using assms by (simp add: ensure_token_def refresh_needs_grant)
  have r: "token_needs_grant (creds (reauthenticate cfg net s'))" for s'
    by (simp add: reauthenticate_def refresh_needs_grant cleared_needs_grant)
  have u: "after (on_unauthorized cfg net req s') = creds (reauthenticate cfg net s')" for s'
    by (simp add: on_unauthorized_def Let_def split: http_result.splits)
  have f: "token_needs_grant s' \<Longrightarrow> token_needs_grant (after (forward cfg net req s'))" for s'
    by (simp add: forward_def Let_def u r split: http_result.splits)
  show ?thesis
    using e f [of "creds (ensure_token cfg net s)"] by (simp add: handler_def Let_def)
qed

lemma run_needs_grant: "token_needs_grant s \<Longrightarrow> token_needs_grant (run cfg reqs s)"
  by (induction reqs arbitrary: s) (auto simp: handler_needs_grant)

lemma startup_needs_grant: "token_needs_grant (creds (startup cfg result env_refresh_token))"
proof -
  have "token_needs_grant (initial_state env_refresh_token)"
    by (simp add: initial_state_def token_needs_grant_def)
  then show ?thesis
    unfolding startup_def by (rule refresh_needs_grant)
qed

lemma handler_grant_revoked:
  assumes "token_needs_grant s" and "\<not> truthy (spotifyRefreshToken s)"
  shows "handler cfg net req s =
     \<lparr> reply = service_unavailable ''Failed to authenticate with Spotify.'', after = s,
       events = [RefreshCall None False] \<rparr>"
proof -
  from assms have "\<not> truthy (spotifyAccessToken s)" by (auto simp: token_needs_grant_def)
  with assms(2) show ?thesis
    by (simp add: handler_def ensure_token_def refresh_without_token)
qed

subsection \<open>The two pieces of refreshAccessToken\<close>

lemma refresh_in_one_piece:
  "refreshAccessToken cfg result s =
     (case refresh_begin cfg s of
        None \<Rightarrow> \<lparr> ok = False, creds = s, calls = [RefreshCall None False] \<rparr>
      | Some post \<Rightarrow>
          \<lparr> ok = fst (refresh_resume result s), creds = snd (refresh_resume result s),
            calls = [RefreshCall (Some post) (fst (refresh_resume result s))] \<rparr>)"
  by (auto simp: refreshAccessToken_def refresh_begin_def refresh_resume_def Let_def
      split: http_result.splits option.splits)

lemma overlapped_one_call:
  "\<not> truthy (spotifyAccessToken s) \<Longrightarrow>
   overlapped cfg [Arrive, Answer 0 result] (quiet s) =
     \<lparr> vars = creds (refreshAccessToken cfg result s), awaiting = [],
       made = calls (refreshAccessToken cfg result s) \<rparr>"
  by (auto simp: refresh_in_one_piece quiet_def call_refresh_def split: option.splits)

lemma resume_invalid_grant:
  "is_invalid_grant failure \<Longrightarrow>
   \<not> fst (refresh_resume failure s) \<and> spotifyRefreshToken (snd (refresh_resume failure s)) = JNull"
  by (cases failure) (auto simp: refresh_resume_def refresh_catch_def validateStatus_def)

lemma resume_failure_clears:
  "\<not> fst (refresh_resume result s) \<Longrightarrow> spotifyAccessToken (snd (refresh_resume result s)) = JStr []"
  by (auto simp: refresh_resume_def refresh_catch_def Let_def
      split: http_result.splits option.splits if_splits)

lemma step_settled: "settled w \<Longrightarrow> settled (overlap_step cfg st w)"
  by (cases st) (auto simp: settled_def call_refresh_def refresh_begin_def)

lemma overlapped_settled: "settled w \<Longrightarrow> settled (overlapped cfg sts w)"
  by (induction sts arbitrary: w) (auto simp: step_settled)

lemma step_failed_refresh:
  "refresh_returns (made (overlap_step cfg st w)) = refresh_returns (made w) @ [False] \<Longrightarrow>
   \<not> truthy (spotifyAccessToken (vars (overlap_step cfg st w)))"
  by (cases st)
    (auto simp: call_refresh_def refresh_begin_def refresh_returns_append resume_failure_clears
      split: if_splits option.splits)

subsection \<open>A failed refresh inside a request\<close>

lemma handler_failed_refresh_leaves_no_token:
  assumes "False \<in> set (refresh_returns (events (handler cfg net req s)))"
  shows "\<not> truthy (spotifyAccessToken (after (handler cfg net req s)))"
proof (cases "ok (ensure_token cfg net s)")
  case False
  then have m: "\<not> truthy (spotifyAccessToken s)"
    by (auto simp: ensure_token_def split: if_splits)
  show ?thesis
  proof (cases "truthy (spotifyRefreshToken s)")
    case True
    with False m show ?thesis
      by (simp add: handler_stopped ensure_token_missing refresh_failure_clears)
  next
    case n: False
    with False m show ?thesis
      by (simp add: handler_stopped ensure_token_missing refresh_without_token)
  qed
next
  case True
  obtain p where p: "calls (ensure_token cfg net s) = [] \<or>
      calls (ensure_token cfg net s) = [RefreshCall p True]"
    using True refresh_calls_one [of cfg "entry_refresh net" s]
    by (auto simp: ensure_token_def split: if_splits)
  let ?s = "creds (ensure_token cfg net s)"
  let ?r = "reauthenticate cfg net ?s"
  obtain q where q: "calls ?r = [RefreshCall q (ok ?r)]"
    using refresh_calls_one [of cfg "reauth_refresh net" "?s\<lparr>spotifyAccessToken := JStr []\<rparr>"]
    by (auto simp: reauthenticate_def)
  show ?thesis
  proof (cases "first_attempt net")
    case (NoResponse msg)
    with True p assms show ?thesis
      by (auto simp: handler_forwarded forward_no_response refresh_returns_append)
  next
    case (Responded st d)
    show ?thesis
    proof (cases "st = 401")
      case False
      with True p Responded assms show ?thesis
        by (auto simp: handler_forwarded forward_other_status refresh_returns_append)
    next
      case st: True
      show ?thesis
      proof (cases "ok ?r \<and> truthy (spotifyAccessToken (creds ?r))")
        case yes: True
        with True p q st Responded assms show ?thesis
          by (auto simp: handler_forwarded forward_401 on_unauthorized_retry
              refresh_returns_append Let_def)
      next
        case no: False
        have "\<not> ok ?r \<Longrightarrow> spotifyAccessToken (creds ?r) = JStr []"
          by (cases "truthy (spotifyRefreshToken ?s)")
            (simp_all add: reauthenticate_def refresh_failure_clears refresh_without_token)
        with no have "\<not> truthy (spotifyAccessToken (creds ?r))" by auto
        with True no st Responded show ?thesis
          by (simp add: handler_forwarded forward_401 on_unauthorized_no_retry Let_def)
      qed
    qed
  qed
qed

subsection \<open>Form encoding read back\<close>

lemma below_16:
  fixes n :: nat
  assumes "n < 16"
  shows "n \<in> {0, 1, 2, 3, 4, 5, 6, 7, 8, 9, 10, 11, 12, 13, 14, 15}"
proof -
  from assms consider "n < 4" | "4 \<le> n \<and> n < 8" | "8 \<le> n \<and> n < 12" | "12 \<le> n \<and> n < 16"
    by linarith
  then show ?thesis
  proof cases
    case 1
    then show ?thesis by auto
  next
    case 2
    then show ?thesis by auto
  next
    case 3
    then show ?thesis by auto
  next
    case 4
    then show ?thesis by auto
  qed
qed

lemma hex_digit_value: "n < 16 \<Longrightarrow> hex_value (hex_digit n) = Some n"
  using below_16 [of n] by (auto simp: hex_digit_def hex_value_def)

lemma hex_digit_plain: "n < 16 \<Longrightarrow> hex_digit n \<noteq> CHR ''&'' \<and> hex_digit n \<noteq> CHR ''=''"
  using below_16 [of n] by (auto simp: hex_digit_def)

lemma of_char_div_16: "(of_char c :: nat) div 16 < 16"
proof -
  have "(of_char c :: nat) < 256" by simp
  then show ?thesis by arith
qed

lemma form_safe_plain:
  "form_safe c \<Longrightarrow> c \<noteq> CHR ''+'' \<and> c \<noteq> CHR ''%'' \<and> c \<noteq> CHR ''&'' \<and> c \<noteq> CHR ''=''"
  by (auto simp: form_safe_def is_digit_def is_alpha_def)

lemma form_decode_byte: "form_decode (form_encode_byte c @ rest) = c # form_decode rest"
proof (cases "c = CHR '' ''")
  case True
  then show ?thesis by (simp add: form_encode_byte_def)
next
  case False
  show ?thesis
  proof (cases "form_safe c")
    case True
    with False form_safe_plain [of c] show ?thesis by (simp add: form_encode_byte_def)
  next
    case unsafe: False
    have "char_of (16 * ((of_char c :: nat) div 16) + (of_char c :: nat) mod 16) = c"
      by simp
    with False unsafe show ?thesis
      by (simp add: form_encode_byte_def percent_encode_def hex_digit_value of_char_div_16)
  qed
qed

lemma form_decode_encode: "form_decode (form_encode s @ rest) = s @ form_decode rest"
  by (induction s) (simp_all add: form_encode_def form_decode_byte del: form_decode.simps)

lemma form_encode_byte_plain:
  "CHR ''&'' \<notin> set (form_encode_byte c) \<and> CHR ''='' \<notin> set (form_encode_byte c)"
  using form_safe_plain [of c] hex_digit_plain [of "(of_char c :: nat) div 16"]
    hex_digit_plain [of "(of_char c :: nat) mod 16"] of_char_div_16 [of c]
  by (auto simp: form_encode_byte_def percent_encode_def)

lemma form_encode_plain:
  "CHR ''&'' \<notin> set (form_encode s) \<and> CHR ''='' \<notin> set (form_encode s)"
  using form_encode_byte_plain by (induction s) (auto simp: form_encode_def)

lemma split_on_plain: "c \<notin> set p \<Longrightarrow> split_on c p = [p]"
  by (induction p) auto

lemma split_on_append: "c \<notin> set p \<Longrightarrow> split_on c (p @ c # rest) = p # split_on c rest"
  by (induction p) auto

lemma split_on_join_amp:
  "ps \<noteq> [] \<Longrightarrow> \<forall>p \<in> set ps. CHR ''&'' \<notin> set p \<Longrightarrow> split_on CHR ''&'' (join_amp ps) = ps"
proof (induction ps rule: join_amp.induct)
  case 1
  then show ?case by simp
next
  case (2 x)
  then show ?case by (simp add: split_on_plain)
next
  case (3 x y ys)
  then show ?case by (simp add: split_on_append del: split_on.simps)
qed

lemma parse_encode_pair: "parse_pair (encode_pair (k, v)) = (k, js_to_string v)"
proof -
  have a: "takeWhile (\<lambda>x. x \<noteq> CHR ''='') (form_encode k @ CHR ''='' # rest) = form_encode k"
    for rest
    using form_encode_plain [of k] by (auto simp: takeWhile_tail)
  have b: "dropWhile (\<lambda>x. x \<noteq> CHR ''='') (form_encode k @ CHR ''='' # rest) = CHR ''='' # rest"
    for rest
    using form_encode_plain [of k] by (auto simp: dropWhile_append3)
  show ?thesis
    using form_decode_encode [of k "[]"] form_decode_encode [of "js_to_string v" "[]"]
    by (simp add: parse_pair_def encode_pair_def a b)
qed

lemma encode_pair_plain: "encode_pair x \<noteq> [] \<and> CHR ''&'' \<notin> set (encode_pair x)"
  using form_encode_plain by (cases x) (simp add: encode_pair_def)

lemma toString_empty: "URLSearchParams_toString ps = [] \<longleftrightarrow> ps = []"
proof (cases ps)
  case Nil
  then show ?thesis by (simp add: URLSearchParams_toString_def)
next
  case (Cons x xs)
  have "join_amp (y # ys) \<noteq> []" if "y \<noteq> []" for y :: string and ys
    using that by (cases ys) auto
  with Cons encode_pair_plain [of x] show ?thesis
    by (simp add: URLSearchParams_toString_def)
qed

lemma parse_query_toString:
  "parse_query (URLSearchParams_toString ps) = map (\<lambda>(k, v). (k, js_to_string v)) ps"
proof (cases "ps = []")
  case True
  then show ?thesis by (simp add: parse_query_def URLSearchParams_toString_def)
next
  case False
  have "split_on CHR ''&'' (join_amp (map encode_pair ps)) = map encode_pair ps"
    using False encode_pair_plain by (intro split_on_join_amp) auto
  moreover have "filter (\<lambda>p. p \<noteq> []) (map encode_pair ps) = map encode_pair ps"
    using encode_pair_plain by (simp add: filter_id_conv)
  moreover have "map parse_pair (map encode_pair ps) = map (\<lambda>(k, v). (k, js_to_string v)) ps"
    by (auto simp: parse_encode_pair)
  ultimately show ?thesis
    by (simp add: parse_query_def URLSearchParams_toString_def)
qed

section \<open>The claims\<close>

subsection \<open>C1: one refresh and one retry after a 401\<close>

text \<open>
  C1, counterexample. The claim has the retry follow from the refresh succeeding. The
  token is expired, the first attempt is answered 401, and the token endpoint answers 200
  with a body that carries no \<open>access_token\<close>: \<open>refreshAccessToken\<close> returns true, and
  still the handler makes no second upstream call and answers 503.
\<close>

theorem refresh_success_without_token_no_retry:
  "first_attempt (expired (Responded 200 (JObj [(''token_type'', JStr ''Bearer'')]))
       (Responded 200 (JObj []))) = unauthorized \<and>
   refresh_returns (events (handler example_config
     (expired (Responded 200 (JObj [(''token_type'', JStr ''Bearer'')])) (Responded 200 (JObj [])))
     get_me token_expired)) = [True] \<and>
   length (upstream_calls (events (handler example_config
     (expired (Responded 200 (JObj [(''token_type'', JStr ''Bearer'')])) (Responded 200 (JObj [])))
     get_me token_expired))) = 1 \<and>
   status (reply (handler example_config
     (expired (Responded 200 (JObj [(''token_type'', JStr ''Bearer'')])) (Responded 200 (JObj [])))
     get_me token_expired)) = 503"
  by (simp add: model_defs example_defs Let_def)

text \<open>
  C1, with the guard of line 125. For every inbound request whose first upstream call is
  answered 401, the handler clears the stored access token and calls
  \<open>refreshAccessToken\<close> exactly once. If that call returns true and leaves a non-empty
  access token, the handler makes exactly one more upstream call, with the new token as
  the bearer credential, and relays what it is answered, status and body, whatever the
  status (a second 401 included), with no further call; when the retry gets no response
  the reply is a 500. If the refresh fails, or returns true without leaving an access
  token, the reply is 503 and no retry is made.
\<close>

theorem unauthorized_one_refresh_one_retry:
  assumes "ok (ensure_token cfg net s)" and "first_attempt net = Responded 401 d"
  shows "let e = ensure_token cfg net s;
             r = refreshAccessToken cfg (reauth_refresh net)
                   ((creds e)\<lparr>spotifyAccessToken := JStr []\<rparr>);
             h = handler cfg net req s in
         length (calls r) = 1 \<and> refresh_returns (calls r) = [ok r] \<and>
         after h = creds r \<and>
         (ok r \<and> truthy (spotifyAccessToken (creds r)) \<longrightarrow>
            events h = calls e @ UpstreamCall (first_request req (creds e)) # calls r @
                       [UpstreamCall (retry_request req (creds r))] \<and>
            ax_headers (retry_request req (creds r)) =
              [(''Authorization'', ''Bearer '' @ js_to_string (spotifyAccessToken (creds r)))] \<and>
            reply h = (case retry_attempt net of
                         Responded st2 d2 \<Rightarrow> \<lparr> status = st2, json = d2 \<rparr>
                       | NoResponse msg \<Rightarrow> internal_error_retry)) \<and>
         (\<not> (ok r \<and> truthy (spotifyAccessToken (creds r))) \<longrightarrow>
            events h = calls e @ UpstreamCall (first_request req (creds e)) # calls r \<and>
            reply h = service_unavailable ''Failed to re-authenticate with Spotify.'' \<and>
            status (reply h) = 503)"
  using handler_on_401 [OF assms, of req]
    reauthenticate_calls [of cfg net "creds (ensure_token cfg net s)"]
    refresh_calls_one [of cfg "reauth_refresh net"
      "(creds (ensure_token cfg net s))\<lparr>spotifyAccessToken := JStr []\<rparr>"]
  by (auto simp: Let_def reauthenticate_def retry_request_def bearer_def relay_def
      service_unavailable_def split: http_result.splits)

theorem unauthorized_one_refresh_one_retry_witness:
  "ok (ensure_token example_config (expired rotated_token unauthorized) token_expired) \<and>
   first_attempt (expired rotated_token unauthorized) = unauthorized \<and>
   handler example_config (expired rotated_token unauthorized) get_me token_expired =
     \<lparr> reply = \<lparr> status = 401, json = JObj [(''error'', JObj [(''status'', JNum 401)])] \<rparr>,
       after = \<lparr> spotifyAccessToken = JStr ''new'', spotifyRefreshToken = JStr ''r1'' \<rparr>,
       events =
         [UpstreamCall (first_request get_me token_expired),
          RefreshCall (Some (token_post example_config (JStr ''r0''))) True,
          UpstreamCall \<lparr> ax_method = ''GET'', ax_url = ''https://api.spotify.com/v1/me'',
            ax_headers = [(''Authorization'', ''Bearer new'')], ax_data = Some (JObj []),
            ax_timeout = 15000 \<rparr>] \<rparr>"
  using unauthorized_one_refresh_one_retry [of example_config
      "expired rotated_token unauthorized" token_expired
      "JObj [(''error'', JObj [(''status'', JNum 401)])]" get_me]
  by (simp add: model_defs example_defs Let_def)

subsection \<open>C2: without a refresh token, no call to the token endpoint\<close>

text \<open>
  C2, counterexample. Two requests arrive while no access token is held, and each calls
  \<open>refreshAccessToken\<close>; both calls pass the test of line 32 and post. The second is
  answered 400 with \<open>invalid_grant\<close>, and the refresh token is set to \<open>null\<close>. Then
  the first is answered 200 with a rotated refresh token, which lines 52 to 54 store: the
  refresh token is not \<open>null\<close> any more, and the next call of \<open>refreshAccessToken\<close>,
  after a 401, posts to the token endpoint and returns true.
\<close>

theorem overlapping_refresh_restores_token:
  "spotifyRefreshToken (vars (overlapped example_config
     [Arrive, Arrive, Answer 1 invalid_grant] (quiet token_missing))) = JNull \<and>
   overlapped example_config
     [Arrive, Arrive, Answer 1 invalid_grant, Answer 0 rotated_token] (quiet token_missing) =
     \<lparr> vars = \<lparr> spotifyAccessToken = JStr ''new'', spotifyRefreshToken = JStr ''r1'' \<rparr>,
       awaiting = [],
       made = [RefreshCall (Some (token_post example_config (JStr ''r0''))) False,
               RefreshCall (Some (token_post example_config (JStr ''r0''))) True] \<rparr> \<and>
   overlapped example_config
     [Arrive, Arrive, Answer 1 invalid_grant, Answer 0 rotated_token, Unauthorized,
      Answer 0 new_token] (quiet token_missing) =
     \<lparr> vars = \<lparr> spotifyAccessToken = JStr ''new'', spotifyRefreshToken = JStr ''r1'' \<rparr>,
       awaiting = [],
       made = [RefreshCall (Some (token_post example_config (JStr ''r0''))) False,
               RefreshCall (Some (token_post example_config (JStr ''r0''))) True,
               RefreshCall (Some (token_post example_config (JStr ''r1''))) True] \<rparr>"
  by (simp add: model_defs example_defs overlap_defs Let_def)

text \<open>
  C2, for a token set to \<open>null\<close> while no other call awaits its answer.
  \<open>refreshAccessToken\<close> returns false at once, without posting to the token endpoint
  and without touching the state, whenever the stored refresh token is \<open>null\<close>, absent
  or empty. A refresh answered with status 400 and error \<open>invalid_grant\<close> leaves the
  refresh token \<open>null\<close>, on whatever state the answer arrives. From a state whose
  refresh token is \<open>null\<close> and in which no call of \<open>refreshAccessToken\<close> awaits an
  answer, the refresh token stays \<open>null\<close>, nothing is posted to the token endpoint and
  every call of \<open>refreshAccessToken\<close> returns false: for requests served one after
  another whatever the network answers, and for requests that arrive, get a 401 and
  overlap in any order.
\<close>

theorem refresh_token_null_is_permanent:
  "(\<not> truthy (spotifyRefreshToken s_none) \<longrightarrow>
      refresh_begin cfg s_none = None \<and>
      refreshAccessToken cfg result s_none =
        \<lparr> ok = False, creds = s_none, calls = [RefreshCall None False] \<rparr>) \<and>
   (truthy (spotifyRefreshToken s_live) \<and> is_invalid_grant failure \<longrightarrow>
      \<not> ok (refreshAccessToken cfg failure s_live) \<and>
      spotifyRefreshToken (creds (refreshAccessToken cfg failure s_live)) = JNull \<and>
      \<not> fst (refresh_resume failure s_then) \<and>
      spotifyRefreshToken (snd (refresh_resume failure s_then)) = JNull) \<and>
   (spotifyRefreshToken s_null = JNull \<longrightarrow>
      (\<forall>h \<in> set (serve cfg reqs s_null).
         spotifyRefreshToken (after h) = JNull \<and>
         token_posts (events h) = [] \<and>
         True \<notin> set (refresh_returns (events h))) \<and>
      spotifyRefreshToken (vars (overlapped cfg sts (quiet s_null))) = JNull \<and>
      awaiting (overlapped cfg sts (quiet s_null)) = [] \<and>
      (\<forall>e \<in> set (made (overlapped cfg sts (quiet s_null))). e = RefreshCall None False))"
proof -
  have "settled (overlapped cfg sts (quiet s_null))" if "spotifyRefreshToken s_null = JNull"
    using that by (intro overlapped_settled) (simp add: settled_def quiet_def)
  then show ?thesis
    using refresh_without_token [of s_none cfg result] refresh_invalid_grant [of s_live failure cfg]
      serve_without_refresh_token [of s_null _ cfg reqs] resume_invalid_grant [of failure s_then]
    by (auto simp: settled_def refresh_begin_def)
qed

theorem refresh_token_null_is_permanent_witness:
  "\<not> truthy (spotifyRefreshToken grant_revoked) \<and>
   refreshAccessToken example_config rotated_token grant_revoked =
     \<lparr> ok = False, creds = grant_revoked, calls = [RefreshCall None False] \<rparr> \<and>
   truthy (spotifyRefreshToken token_missing) \<and> is_invalid_grant invalid_grant \<and>
   creds (refreshAccessToken example_config invalid_grant token_missing) = grant_revoked \<and>
   snd (refresh_resume invalid_grant token_expired) = grant_revoked \<and>
   spotifyRefreshToken grant_revoked = JNull \<and>
   map (\<lambda>h. (status (reply h), events h, after h))
     (serve example_config [(get_me, generous), (put_play, generous)] grant_revoked) =
     [(503, [RefreshCall None False], grant_revoked),
      (503, [RefreshCall None False], grant_revoked)] \<and>
   overlapped example_config [Arrive, Unauthorized, Answer 0 rotated_token, Arrive]
     (quiet grant_revoked) =
     \<lparr> vars = grant_revoked, awaiting = [],
       made = [RefreshCall None False, RefreshCall None False, RefreshCall None False] \<rparr>"
  using refresh_token_null_is_permanent [of grant_revoked example_config rotated_token
      token_missing invalid_grant token_expired grant_revoked
      "[(get_me, generous), (put_play, generous)]"
      "[Arrive, Unauthorized, Answer 0 rotated_token, Arrive]"]
  by (simp add: model_defs example_defs overlap_defs Let_def)

subsection \<open>C3: the query string and the body that are forwarded\<close>

text \<open>
  C3, counterexample. The inbound URL is \<open>/api/spotify/search?q=a%20b\<close>. Express
  hands the handler the parameter \<open>q\<close> with the value \<open>a b\<close>, and the URL sent
  upstream ends in \<open>?q=a+b\<close>: the encoding is not the one received.
\<close>

theorem query_encoding_not_preserved:
  "express_query ''q=a%20b'' = [(''q'', JStr ''a b'')] \<and>
   query_string \<lparr> req_method = ''GET'', path = ''/search'', query = express_query ''q=a%20b'',
       content_type = None, body = JObj [] \<rparr> = ''q=a+b'' \<and>
   ''q=a+b'' \<noteq> ''q=a%20b'' \<and>
   spotifyUrl \<lparr> req_method = ''GET'', path = ''/search'', query = express_query ''q=a%20b'',
       content_type = None, body = JObj [] \<rparr> = ''https://api.spotify.com/v1/search?q=a+b''"
  by code_simp

text \<open>
  C3, for what is forwarded. The query string sent upstream is the form encoding of the
  parsed parameters \<open>req.query\<close>, not the bytes received: read back, it gives the
  names and the values (as strings) of \<open>req.query\<close>, in its key order. Every upstream call
  of a request, the retry included, goes to the upstream base followed by the sub-path
  and, when there is a parameter, \<open>?\<close> and that query string, with the HTTP verb of the
  request. The body passed to the first attempt is the parsed \<open>req.body\<close>, when it has
  at least one key, and none otherwise.
\<close>

theorem query_and_body_reserialised:
  "parse_query (query_string req) = map (\<lambda>(k, v). (k, js_to_string v)) (query req) \<and>
   (\<forall>c \<in> set (upstream_calls (events (handler cfg net req s))).
      ax_method c = req_method req \<and>
      ax_url c = ''https://api.spotify.com/v1/'' @ spotifyEndpoint req @
                 (if query req = [] then [] else CHR ''?'' # query_string req)) \<and>
   ax_data (first_request req s) =
     (if truthy (body req) \<and> 0 < keys_count (body req) then Some (body req) else None)"
  using handler_upstream_calls [of _ cfg net req s] toString_empty [of "query req"]
  by (auto simp: query_string_def parse_query_toString spotifyUrl_def first_request_def)

theorem query_and_body_reserialised_witness:
  "parse_query (query_string put_play) = [(''device_id'', ''d1'')] \<and>
   upstream_calls (events (handler example_config (expired new_token (Responded 204 (JStr [])))
     put_play token_expired)) =
     [\<lparr> ax_method = ''PUT'', ax_url = ''https://api.spotify.com/v1/me/player/play?device_id=d1'',
        ax_headers = [(''Authorization'', ''Bearer old''),
                      (''Content-Type'', ''application/json; charset=utf-8'')],
        ax_data = Some (JObj [(''uris'', JArr [JStr ''spotify:track:1''])]), ax_timeout = 15000 \<rparr>,
      \<lparr> ax_method = ''PUT'', ax_url = ''https://api.spotify.com/v1/me/player/play?device_id=d1'',
        ax_headers = [(''Authorization'', ''Bearer new'')],
        ax_data = Some (JObj [(''uris'', JArr [JStr ''spotify:track:1''])]), ax_timeout = 15000 \<rparr>]"
  using query_and_body_reserialised [of put_play example_config
      "expired new_token (Responded 204 (JStr []))" token_expired]
  by (simp add: model_defs example_defs Let_def)

subsection \<open>C4: what a successful refresh stores\<close>

text \<open>
  C4. For every call of \<open>refreshAccessToken\<close> that returns true, the token endpoint
  answered with a status from 200 to 299, the stored access token is the
  \<open>access_token\<close> of the response, and the stored refresh token is the
  \<open>refresh_token\<close> of the response when the response has one (the test of line 52:
  present and not empty), and is left as it was when the response has none. A call that
  gets no response never returns true.
\<close>

theorem successful_refresh_stores_tokens:
  "(ok (refreshAccessToken cfg (Responded st d) s) \<longrightarrow>
      validateStatus st \<and>
      spotifyAccessToken (creds (refreshAccessToken cfg (Responded st d) s)) =
        opt_prop ''access_token'' d \<and>
      spotifyRefreshToken (creds (refreshAccessToken cfg (Responded st d) s)) =
        (if truthy (opt_prop ''refresh_token'' d) then opt_prop ''refresh_token'' d
         else spotifyRefreshToken s)) \<and>
   \<not> ok (refreshAccessToken cfg (NoResponse msg) s)"
  using refresh_success [of cfg st d s] refresh_no_response [of cfg msg s] by blast

theorem successful_refresh_stores_tokens_witness:
  "ok (refreshAccessToken example_config rotated_token token_missing) \<and>
   creds (refreshAccessToken example_config rotated_token token_missing) =
     \<lparr> spotifyAccessToken = JStr ''new'', spotifyRefreshToken = JStr ''r1'' \<rparr> \<and>
   ok (refreshAccessToken example_config new_token token_missing) \<and>
   creds (refreshAccessToken example_config new_token token_missing) =
     \<lparr> spotifyAccessToken = JStr ''new'', spotifyRefreshToken = JStr ''r0'' \<rparr>"
proof -
  have a: "ok (refreshAccessToken example_config rotated_token token_missing)"
    by (simp add: model_defs example_defs)
  have b: "ok (refreshAccessToken example_config new_token token_missing)"
    by (simp add: model_defs example_defs)
  note r = successful_refresh_stores_tokens [of example_config 200
      "JObj [(''access_token'', JStr ''new''), (''refresh_token'', JStr ''r1'')]" token_missing]
  note n = successful_refresh_stores_tokens [of example_config 200
      "JObj [(''access_token'', JStr ''new''), (''expires_in'', JNum 3600)]" token_missing]
  from a b r n show ?thesis
    by (simp add: rotated_token_def new_token_def opt_prop_def token_missing_def)
qed

subsection \<open>C5: the tokens after a failed refresh\<close>

text \<open>
  C5. Every call of \<open>refreshAccessToken\<close> that returns false leaves no access token
  stored, the immediate failure with no refresh token included. The function is called
  in three places: at startup (line 166), where the access token is the empty string; in
  step 1 of the handler (line 86), where none is held; and after a 401 (line 124), right
  after line 123 has cleared it. At each of them a call that returns false, at once or
  after an answer, leaves the access token empty or as falsy as it was; so does every
  request in which a refresh returned false, and so does every synchronous piece of
  overlapping requests in which one returns false. After any failure other than status
  400 with \<open>invalid_grant\<close> (no response, another status, another error code, the
  immediate failure) the refresh token is the one stored before.
\<close>

theorem failed_refresh_leaves_no_access_token:
  "(\<not> ok (startup cfg result env_refresh_token) \<longrightarrow>
      spotifyAccessToken (creds (startup cfg result env_refresh_token)) = JStr []) \<and>
   (\<not> truthy (spotifyAccessToken s_arrive) \<and> \<not> ok (refreshAccessToken cfg result s_arrive) \<longrightarrow>
      \<not> truthy (spotifyAccessToken (creds (refreshAccessToken cfg result s_arrive)))) \<and>
   (\<not> ok (refreshAccessToken cfg result (s_401\<lparr>spotifyAccessToken := JStr []\<rparr>)) \<longrightarrow>
      spotifyAccessToken
        (creds (refreshAccessToken cfg result (s_401\<lparr>spotifyAccessToken := JStr []\<rparr>))) = JStr []) \<and>
   (False \<in> set (refresh_returns (events (handler cfg net req s))) \<longrightarrow>
      \<not> truthy (spotifyAccessToken (after (handler cfg net req s)))) \<and>
   (refresh_returns (made (overlap_step cfg st w)) = refresh_returns (made w) @ [False] \<longrightarrow>
      \<not> truthy (spotifyAccessToken (vars (overlap_step cfg st w)))) \<and>
   (\<not> ok (refreshAccessToken cfg result s_live) \<and> \<not> is_invalid_grant result \<longrightarrow>
      spotifyRefreshToken (creds (refreshAccessToken cfg result s_live)) =
        spotifyRefreshToken s_live)"
proof -
  have call: "\<not> ok (refreshAccessToken cfg result s') \<Longrightarrow> \<not> truthy (spotifyAccessToken s') \<Longrightarrow>
      \<not> truthy (spotifyAccessToken (creds (refreshAccessToken cfg result s')))" for s'
    by (cases "truthy (spotifyRefreshToken s')")
      (simp_all add: refresh_failure_clears refresh_without_token)
  have a: "\<not> ok (startup cfg result env_refresh_token) \<Longrightarrow>
      spotifyAccessToken (creds (startup cfg result env_refresh_token)) = JStr []"
    by (cases "env_refresh_token = []")
      (simp_all add: startup_def initial_state_def refresh_failure_clears refresh_without_token)
  have c: "\<not> ok (refreshAccessToken cfg result (s_401\<lparr>spotifyAccessToken := JStr []\<rparr>)) \<Longrightarrow>
      spotifyAccessToken
        (creds (refreshAccessToken cfg result (s_401\<lparr>spotifyAccessToken := JStr []\<rparr>))) = JStr []"
    by (cases "truthy (spotifyRefreshToken s_401)")
      (simp_all add: refresh_failure_clears refresh_without_token)
  show ?thesis
    using a c call [of s_arrive] handler_failed_refresh_leaves_no_token [of cfg net req s]
      step_failed_refresh [of cfg st w] refresh_failure_keeps_refresh_token [of cfg result s_live]
    by simp
qed

theorem failed_refresh_leaves_no_access_token_witness:
  "\<not> ok (startup example_config timed_out ''r0'') \<and>
   \<not> truthy (spotifyAccessToken grant_revoked) \<and>
   refreshAccessToken example_config timed_out grant_revoked =
     \<lparr> ok = False, creds = grant_revoked, calls = [RefreshCall None False] \<rparr> \<and>
   creds (refreshAccessToken example_config timed_out
     (token_expired\<lparr>spotifyAccessToken := JStr []\<rparr>)) = token_missing \<and>
   False \<in> set (refresh_returns (events (handler example_config
      (expired timed_out timed_out) get_me token_expired))) \<and>
   after (handler example_config (expired timed_out timed_out) get_me token_expired) =
     token_missing \<and>
   overlap_step example_config Unauthorized
     \<lparr> vars = \<lparr> spotifyAccessToken = JStr ''old'', spotifyRefreshToken = JNull \<rparr>,
       awaiting = [], made = [] \<rparr> =
     \<lparr> vars = grant_revoked, awaiting = [], made = [RefreshCall None False] \<rparr> \<and>
   \<not> is_invalid_grant timed_out \<and>
   creds (refreshAccessToken example_config timed_out token_expired) = token_missing"
  using failed_refresh_leaves_no_access_token [of example_config timed_out "''r0''"
      grant_revoked token_expired "expired timed_out timed_out" get_me token_expired
      Unauthorized
      "\<lparr> vars = \<lparr> spotifyAccessToken = JStr ''old'', spotifyRefreshToken = JNull \<rparr>,
         awaiting = [], made = [] \<rparr>" token_expired]
  by (simp add: model_defs example_defs overlap_defs Let_def)

subsection \<open>C6: no access token held when the request arrives\<close>

text \<open>
  C6. For every inbound request that arrives while no access token is held, exactly one
  call of \<open>refreshAccessToken\<close> is made before anything is sent upstream. If it
  returns true, the first upstream call follows it directly. If it returns false, the
  reply is the 503 of line 88 and no upstream call is made. With no refresh token that
  one call posts nothing, so the request costs no network call at all; and in every
  state the server reaches from startup, a missing refresh token means that no access
  token is held, so that every request then gets this 503.
\<close>

theorem missing_token_one_refresh_first:
  "(\<not> truthy (spotifyAccessToken s) \<longrightarrow>
      (let r = refreshAccessToken cfg (entry_refresh net) s; h = handler cfg net req s in
       length (calls r) = 1 \<and> refresh_returns (calls r) = [ok r] \<and>
       (ok r \<longrightarrow>
          take (Suc (length (calls r))) (events h) =
            calls r @ [UpstreamCall (first_request req (creds r))]) \<and>
       (\<not> ok r \<longrightarrow>
          reply h = service_unavailable ''Failed to authenticate with Spotify.'' \<and>
          status (reply h) = 503 \<and> events h = calls r \<and> upstream_calls (events h) = []) \<and>
       (\<not> truthy (spotifyRefreshToken s) \<longrightarrow>
          status (reply h) = 503 \<and> events h = [RefreshCall None False]))) \<and>
   (\<not> truthy (spotifyRefreshToken (run cfg reqs (creds (startup cfg result env_refresh_token)))) \<longrightarrow>
      (let h = handler cfg net' req'
                 (run cfg reqs (creds (startup cfg result env_refresh_token))) in
       status (reply h) = 503 \<and> events h = [RefreshCall None False]))"
proof -
  let ?r = "refreshAccessToken cfg (entry_refresh net) s"
  let ?s = "run cfg reqs (creds (startup cfg result env_refresh_token))"
  obtain p where p: "calls ?r = [RefreshCall p (ok ?r)]"
    using refresh_calls_one [of cfg "entry_refresh net" s] by blast
  have fw: "\<exists>rest. events (forward cfg net req s') = UpstreamCall (first_request req s') # rest"
    for s'
    by (auto simp: forward_def Let_def split: http_result.splits)
  have a: "take (Suc (length (calls ?r))) (events (handler cfg net req s)) =
      calls ?r @ [UpstreamCall (first_request req (creds ?r))]"
    if "\<not> truthy (spotifyAccessToken s)" and "ok ?r"
    using that fw [of "creds ?r"] by (auto simp: handler_forwarded ensure_token_missing p)
  have b: "handler cfg net req s =
      \<lparr> reply = service_unavailable ''Failed to authenticate with Spotify.'', after = creds ?r,
        events = calls ?r \<rparr>"
    if "\<not> truthy (spotifyAccessToken s)" and "\<not> ok ?r"
    using that by (simp add: handler_stopped ensure_token_missing)
  have c: "?r = \<lparr> ok = False, creds = s, calls = [RefreshCall None False] \<rparr>"
    if "\<not> truthy (spotifyRefreshToken s)"
    using that by (rule refresh_without_token)
  have "token_needs_grant ?s"
    by (intro run_needs_grant startup_needs_grant)
  then have d: "handler cfg net' req' ?s =
      \<lparr> reply = service_unavailable ''Failed to authenticate with Spotify.'', after = ?s,
        events = [RefreshCall None False] \<rparr>"
    if "\<not> truthy (spotifyRefreshToken ?s)"
    using that by (rule handler_grant_revoked)
  show ?thesis using a b c d p by (auto simp: Let_def service_unavailable_def)
qed

theorem missing_token_one_refresh_first_witness:
  "\<not> truthy (spotifyAccessToken token_missing) \<and>
   ok (refreshAccessToken example_config new_token token_missing) \<and>
   handler example_config
     \<lparr> entry_refresh = new_token, first_attempt = Responded 200 (JObj [(''id'', JStr ''u1'')]),
       reauth_refresh = timed_out, retry_attempt = timed_out \<rparr> get_me token_missing =
     \<lparr> reply = \<lparr> status = 200, json = JObj [(''id'', JStr ''u1'')] \<rparr>,
       after = \<lparr> spotifyAccessToken = JStr ''new'', spotifyRefreshToken = JStr ''r0'' \<rparr>,
       events =
         [RefreshCall (Some (token_post example_config (JStr ''r0''))) True,
          UpstreamCall \<lparr> ax_method = ''GET'', ax_url = ''https://api.spotify.com/v1/me'',
            ax_headers = [(''Authorization'', ''Bearer new'')], ax_data = None,
            ax_timeout = 15000 \<rparr>] \<rparr> \<and>
   run example_config [(get_me, generous)] (creds (startup example_config invalid_grant ''r0'')) =
     grant_revoked \<and>
   \<not> truthy (spotifyRefreshToken grant_revoked) \<and>
   handler example_config generous put_play grant_revoked =
     \<lparr> reply = service_unavailable ''Failed to authenticate with Spotify.'',
       after = grant_revoked, events = [RefreshCall None False] \<rparr>"
  using missing_token_one_refresh_first [of token_missing example_config
      "\<lparr> entry_refresh = new_token, first_attempt = Responded 200 (JObj [(''id'', JStr ''u1'')]),
         reauth_refresh = timed_out, retry_attempt = timed_out \<rparr>" get_me
      "[(get_me, generous)]" invalid_grant "''r0''" generous put_play]
  by (simp add: model_defs example_defs Let_def)

subsection \<open>C7: the request that is retried\<close>

text \<open>
  C7, at a failing input. A PUT with a JSON body and the header
  \<open>Content-Type: application/json; charset=utf-8\<close> arrives while the stored token is
  expired; the first attempt is answered 401 and the refresh succeeds. The first attempt
  carried the Content-Type header; the retry carries the Authorization header alone. For a
  GET whose
  \<open>req.body\<close> is the empty object, the first attempt passes no body and the retry
  passes \<open>{}\<close>. The retry is not the first attempt with the new token.
\<close>

theorem retry_drops_content_type:
  "upstream_calls (events (handler example_config (expired new_token (Responded 204 (JStr [])))
     put_play token_expired)) =
     [\<lparr> ax_method = ''PUT'', ax_url = ''https://api.spotify.com/v1/me/player/play?device_id=d1'',
        ax_headers = [(''Authorization'', ''Bearer old''),
                      (''Content-Type'', ''application/json; charset=utf-8'')],
        ax_data = Some (JObj [(''uris'', JArr [JStr ''spotify:track:1''])]), ax_timeout = 15000 \<rparr>,
      \<lparr> ax_method = ''PUT'', ax_url = ''https://api.spotify.com/v1/me/player/play?device_id=d1'',
        ax_headers = [(''Authorization'', ''Bearer new'')],
        ax_data = Some (JObj [(''uris'', JArr [JStr ''spotify:track:1''])]), ax_timeout = 15000 \<rparr>] \<and>
   retry_request put_play \<lparr> spotifyAccessToken = JStr ''new'', spotifyRefreshToken = JStr ''r0'' \<rparr> \<noteq>
   first_request put_play \<lparr> spotifyAccessToken = JStr ''new'', spotifyRefreshToken = JStr ''r0'' \<rparr> \<and>
   map ax_data (upstream_calls (events (handler example_config
     (expired new_token (Responded 200 (JObj []))) get_me token_expired))) =
     [None, Some (JObj [])]"
  by (simp add: model_defs example_defs Let_def)

subsection \<open>C8: an error status other than 401\<close>

text \<open>
  C8. For every request whose first upstream call is answered with an error status other
  than 401, the reply has that status and that body, the first upstream call is the last
  call the handler makes (no refresh follows it and no retry), and the stored tokens are
  those the call was made with. When an access token was held on arrival, the upstream
  call is the only call.
\<close>

theorem other_error_status_relayed:
  assumes "ok (ensure_token cfg net s)"
    and "first_attempt net = Responded st d" and "\<not> validateStatus st" and "st \<noteq> 401"
  shows "let e = ensure_token cfg net s; h = handler cfg net req s in
         reply h = \<lparr> status = st, json = d \<rparr> \<and>
         events h = calls e @ [UpstreamCall (first_request req (creds e))] \<and>
         upstream_calls (events h) = [first_request req (creds e)] \<and>
         refresh_returns (events h) =
           (if truthy (spotifyAccessToken s) then [] else [True]) \<and>
         (truthy (spotifyAccessToken s) \<longrightarrow> events h = [UpstreamCall (first_request req s)]) \<and>
         after h = creds e"
proof -
  have "refresh_returns (calls (ensure_token cfg net s)) =
      (if truthy (spotifyAccessToken s) then [] else [True])"
    using assms(1) refresh_calls_one [of cfg "entry_refresh net" s]
    by (auto simp: ensure_token_def split: if_splits)
  with assms ensure_token_upstream [of cfg net s] show ?thesis
    by (simp add: handler_forwarded forward_other_status Let_def relay_def ensure_token_held
        upstream_calls_append refresh_returns_append)
qed

theorem other_error_status_relayed_witness:
  "ok (ensure_token example_config
     \<lparr> entry_refresh = timed_out, first_attempt = rate_limited, reauth_refresh = new_token,
       retry_attempt = Responded 200 (JObj []) \<rparr> token_expired) \<and>
   \<not> validateStatus 429 \<and> (429::nat) \<noteq> 401 \<and> truthy (spotifyAccessToken token_expired) \<and>
   handler example_config
     \<lparr> entry_refresh = timed_out, first_attempt = rate_limited, reauth_refresh = new_token,
       retry_attempt = Responded 200 (JObj []) \<rparr> get_me token_expired =
     \<lparr> reply = \<lparr> status = 429,
         json = JObj [(''error'',
                  JObj [(''status'', JNum 429), (''message'', JStr ''rate limited'')])] \<rparr>,
       after = token_expired,
       events = [UpstreamCall \<lparr> ax_method = ''GET'', ax_url = ''https://api.spotify.com/v1/me'',
         ax_headers = [(''Authorization'', ''Bearer old'')], ax_data = None,
         ax_timeout = 15000 \<rparr>] \<rparr>"
  using other_error_status_relayed [of example_config
      "\<lparr> entry_refresh = timed_out, first_attempt = rate_limited, reauth_refresh = new_token,
         retry_attempt = Responded 200 (JObj []) \<rparr>" token_expired 429
      "JObj [(''error'', JObj [(''status'', JNum 429), (''message'', JStr ''rate limited'')])]"
      get_me]
  by (simp add: model_defs example_defs Let_def)

subsection \<open>C9: a 2xx answer of the token endpoint\<close>

text \<open>
  C9, counterexample. The token endpoint answers 200 with the JSON body \<open>null\<close>:
  reading \<open>response.data.access_token\<close> throws, the \<open>catch\<close> block runs and
  \<open>refreshAccessToken\<close> returns false.
\<close>

theorem refresh_2xx_null_body_fails:
  "truthy (spotifyRefreshToken token_missing) \<and> validateStatus 200 \<and>
   \<not> ok (refreshAccessToken example_config (Responded 200 JNull) token_missing) \<and>
   creds (refreshAccessToken example_config (Responded 200 JNull) token_missing) = token_missing"
  by (simp add: refreshAccessToken_def refresh_catch_def validateStatus_def token_missing_def)

text \<open>
  C9, for a body that is not \<open>null\<close>. \<open>refreshAccessToken\<close> returns true for every
  answer of the token endpoint with a status from 200 to 299 whose parsed body is not
  \<open>null\<close> or \<open>undefined\<close>, whether or not the body has an \<open>access_token\<close>; the
  stored access token becomes that field, and where the body is an object without the
  field it becomes \<open>undefined\<close>, which is falsy, while the call still returns true.
\<close>

theorem refresh_2xx_reports_success:
  "(truthy (spotifyRefreshToken s) \<and> validateStatus st \<and> d \<noteq> JNull \<and> d \<noteq> JUndefined \<longrightarrow>
      ok (refreshAccessToken cfg (Responded st d) s) \<and>
      spotifyAccessToken (creds (refreshAccessToken cfg (Responded st d) s)) =
        opt_prop ''access_token'' d) \<and>
   (truthy (spotifyRefreshToken s) \<and> validateStatus st \<and> map_of fs ''access_token'' = None \<longrightarrow>
      ok (refreshAccessToken cfg (Responded st (JObj fs)) s) \<and>
      spotifyAccessToken (creds (refreshAccessToken cfg (Responded st (JObj fs)) s)) = JUndefined \<and>
      \<not> truthy (spotifyAccessToken (creds (refreshAccessToken cfg (Responded st (JObj fs)) s))))"
proof -
  have a: "truthy (spotifyRefreshToken s) \<Longrightarrow> validateStatus st \<Longrightarrow>
      d \<noteq> JNull \<Longrightarrow> d \<noteq> JUndefined \<Longrightarrow>
      ok (refreshAccessToken cfg (Responded st d) s) \<and>
      spotifyAccessToken (creds (refreshAccessToken cfg (Responded st d) s)) =
        opt_prop ''access_token'' d" for d
    using refresh_2xx [of s st d cfg] refresh_success [of cfg st d s] by blast
  have b: "map_of fs ''access_token'' = None \<Longrightarrow> opt_prop ''access_token'' (JObj fs) = JUndefined"
    by (simp add: opt_prop_def)
  show ?thesis using a [of d] a [of "JObj fs"] b by auto
qed

theorem refresh_2xx_reports_success_witness:
  "truthy (spotifyRefreshToken token_missing) \<and> validateStatus 200 \<and>
   map_of [(''token_type'', JStr ''Bearer'')] ''access_token'' = None \<and>
   refreshAccessToken example_config (Responded 200 (JObj [(''token_type'', JStr ''Bearer'')]))
     token_missing =
     \<lparr> ok = True,
       creds = \<lparr> spotifyAccessToken = JUndefined, spotifyRefreshToken = JStr ''r0'' \<rparr>,
       calls = [RefreshCall (Some (token_post example_config (JStr ''r0''))) True] \<rparr>"
  using refresh_2xx_reports_success [of token_missing 200
      "JObj [(''token_type'', JStr ''Bearer'')]" example_config
      "[(''token_type'', JStr ''Bearer'')]"]
  by (simp add: refreshAccessToken_def validateStatus_def token_missing_def opt_prop_def)

subsection \<open>C10: when the retry is made\<close>

text \<open>
  C10. After a 401 on the first upstream call, the retry is made when
  \<open>refreshAccessToken\<close> returned true and the stored access token is then non-empty,
  and only then: the upstream calls of the request are then the first attempt and the
  retry. If the refresh returned false, or left no access token, the first attempt is the
  only upstream call and the reply is the 503 of line 149.
\<close>

theorem retry_needs_success_and_token:
  assumes "ok (ensure_token cfg net s)" and "first_attempt net = Responded 401 d"
  shows "let e = ensure_token cfg net s;
             r = refreshAccessToken cfg (reauth_refresh net)
                   ((creds e)\<lparr>spotifyAccessToken := JStr []\<rparr>);
             h = handler cfg net req s in
         (ok r \<and> truthy (spotifyAccessToken (creds r)) \<longrightarrow>
            upstream_calls (events h) = [first_request req (creds e), retry_request req (creds r)]) \<and>
         (\<not> ok r \<or> \<not> truthy (spotifyAccessToken (creds r)) \<longrightarrow>
            upstream_calls (events h) = [first_request req (creds e)] \<and>
            reply h = service_unavailable ''Failed to re-authenticate with Spotify.'' \<and>
            status (reply h) = 503)"
  using handler_on_401 [OF assms, of req] ensure_token_upstream [of cfg net s]
    reauthenticate_upstream [of cfg net "creds (ensure_token cfg net s)"]
  by (auto simp: Let_def reauthenticate_def upstream_calls_append service_unavailable_def)

theorem retry_needs_success_and_token_witness:
  "ok (ensure_token example_config
     (expired (Responded 200 (JObj [(''access_token'', JStr [])])) (Responded 200 (JObj [])))
     token_expired) \<and>
   first_attempt (expired (Responded 200 (JObj [(''access_token'', JStr [])]))
     (Responded 200 (JObj []))) = unauthorized \<and>
   ok (refreshAccessToken example_config (Responded 200 (JObj [(''access_token'', JStr [])]))
     (token_expired\<lparr>spotifyAccessToken := JStr []\<rparr>)) \<and>
   handler example_config
     (expired (Responded 200 (JObj [(''access_token'', JStr [])])) (Responded 200 (JObj [])))
     get_me token_expired =
     \<lparr> reply = service_unavailable ''Failed to re-authenticate with Spotify.'',
       after = \<lparr> spotifyAccessToken = JStr [], spotifyRefreshToken = JStr ''r0'' \<rparr>,
       events = [UpstreamCall (first_request get_me token_expired),
                 RefreshCall (Some (token_post example_config (JStr ''r0''))) True] \<rparr> \<and>
   upstream_calls (events (handler example_config (expired new_token rate_limited)
     get_me token_expired)) =
     [first_request get_me token_expired,
      retry_request get_me \<lparr> spotifyAccessToken = JStr ''new'', spotifyRefreshToken = JStr ''r0'' \<rparr>]"
  using retry_needs_success_and_token [of example_config
      "expired (Responded 200 (JObj [(''access_token'', JStr [])])) (Responded 200 (JObj []))"
      token_expired "JObj [(''error'', JObj [(''status'', JNum 401)])]" get_me]
    retry_needs_success_and_token [of example_config "expired new_token rate_limited"
      token_expired "JObj [(''error'', JObj [(''status'', JNum 401)])]" get_me]
  by (simp add: model_defs example_defs Let_def)

end
